theory Spec2Isabelle
  imports Complex_Main
begin

section \<open>The Google assistants of ragna (ragna/assistants/_google.py)\<close>

text \<open>
  The module defines the class \<open>GoogleAssistant\<close> with the methods \<open>display_name\<close>,
  \<open>_instructize_prompt\<close>, \<open>_render_prompt\<close>, \<open>generate\<close> and \<open>answer\<close>, and its two
  subclasses \<open>GeminiPro\<close> and \<open>GeminiUltra\<close>. Python identifiers that start with an
  underscore lose it here (\<open>_MODEL\<close> is \<open>MODEL\<close>, \<open>_render_prompt\<close> is \<open>render_prompt\<close>).
  A raise is a value \<open>Inl e\<close> of a sum type; what a generator does when it is consumed
  is a record of the calls it made, the items it yielded and the exception that ended it.
\<close>

subsection \<open>Exceptions\<close>

datatype error =
    NameError string
  | KeyError string
  | IndexError
  | CollaboratorError string

subsection \<open>Data of the framework\<close>

text \<open>
  Modelled from the spec: \<open>Source\<close> and \<open>Message\<close> are imported from \<open>ragna.core\<close>, whose
  file is not part of the sources. The spec gives a Source the field \<open>content\<close> and a
  Message the fields \<open>role\<close>, \<open>content\<close> and \<open>sources\<close>. The module reads them by
  attribute (\<open>message.content\<close>, \<open>source.content\<close>) and by key (\<open>i["content"]\<close>,
  \<open>i["role"]\<close>); both are the field of that name here. A role is kept as the string
  the module compares it with (\<open>"system"\<close>) and looks it up by (\<open>role_mapping\<close>).
\<close>

datatype source = Source (content: string)

datatype message = Message (content: string) (role: string) (sources: "source list")

text \<open>A prompt is \<open>Union[str, list[Message]]\<close>; \<open>isinstance(prompt, str)\<close> is the case split.\<close>

datatype prompt = Str string | Messages "message list"

text \<open>
  The values the module puts into a request: string-keyed dict displays (in the order
  the keys are written), list displays, strings, ints and the float literal.
\<close>

datatype json =
    JStr string
  | JInt int
  | JFloat real
  | JList "json list"
  | JDict "(string \<times> json) list"

subsection \<open>Classes and instances\<close>

text \<open>
  \<open>GoogleAssistant\<close> only annotates \<open>_MODEL: str\<close>; the two subclasses give it a value,
  and an assistant is an instance of one of them, holding the API key the base class
  \<open>HttpApiAssistant\<close> stored in \<open>self._api_key\<close>.
\<close>

datatype assistant_class = GeminiPro | GeminiUltra

fun MODEL :: "assistant_class \<Rightarrow> string" where
  "MODEL GeminiPro = ''gemini-pro''"
| "MODEL GeminiUltra = ''gemini-ultra''"

record assistant =
  cls :: assistant_class
  api_key :: string

definition display_name :: "assistant_class \<Rightarrow> string" where
  "display_name c = ''Google/'' @ MODEL c"

subsection \<open>Name resolution\<close>

text \<open>
  A name that is not local to a method is looked up in the module's globals and then in
  the builtins; the class body is not a scope of its methods. The module binds exactly
  the names of its imports and its three classes. Of the builtins only those the module
  mentions are listed. A name found nowhere raises \<open>NameError\<close>; a name found stands
  for the object bound to it.
\<close>

definition module_globals :: "string list" where
  "module_globals =
     [''AsyncIterator'', ''Union'', ''Message'', ''Source'',
      ''HttpApiAssistant'', ''HttpStreamingProtocol'',
      ''GoogleAssistant'', ''GeminiPro'', ''GeminiUltra'']"

definition builtin_names :: "string list" where
  "builtin_names = [''classmethod'', ''dict'', ''isinstance'', ''list'', ''str'']"

definition load_global :: "string \<Rightarrow> error + string" where
  "load_global name =
     (if name \<in> set module_globals \<or> name \<in> set builtin_names
      then Inr name else Inl (NameError name))"

subsection \<open>Strings\<close>

definition nl :: string where
  "nl = [CHR 0x0A]"

text \<open>\<open>sep.join(xs)\<close>\<close>

fun join :: "string \<Rightarrow> string list \<Rightarrow> string" where
  "join sep [] = []"
| "join sep [x] = x"
| "join sep (x # y # ys) = x @ sep @ join sep (y # ys)"

subsection \<open>\<open>_instructize_prompt\<close>\<close>

definition instructize_prompt :: "string \<Rightarrow> source list \<Rightarrow> string" where
  "instructize_prompt prompt srcs =
     join nl
       ([''Answer the prompt using only the pieces of context below.'',
         ''If you don't know the answer, just say so. Don't try to make up additional context.'',
         ''Prompt: '' @ prompt]
        @ map (\<lambda>source. nl @ source.content source) srcs)"

subsection \<open>\<open>_render_prompt\<close>\<close>

definition role_mapping :: "string \<rightharpoonup> string" where
  "role_mapping = [''user'' \<mapsto> ''user'', ''assistant'' \<mapsto> ''model'']"

text \<open>\<open>d[k]\<close> on a dict raises \<open>KeyError(k)\<close> when the key is missing.\<close>

definition subscript :: "(string \<rightharpoonup> string) \<Rightarrow> string \<Rightarrow> error + string" where
  "subscript d k = (case d k of None \<Rightarrow> Inl (KeyError k) | Some v \<Rightarrow> Inr v)"

text \<open>
  The list comprehension over \<open>messages\<close>: the filter \<open>i["role"] != "system"\<close> first, then
  the dict display, whose \<open>role_mapping[i["role"]]\<close> may raise; the first raise ends it.
\<close>

fun render_messages :: "message list \<Rightarrow> error + json list" where
  "render_messages [] = Inr []"
| "render_messages (i # rest) =
     (if message.role i \<noteq> ''system'' then
        (case subscript role_mapping (message.role i) of
           Inl e \<Rightarrow> Inl e
         | Inr r \<Rightarrow>
            (case render_messages rest of
               Inl e \<Rightarrow> Inl e
             | Inr out \<Rightarrow>
                Inr (JDict [(''parts'', JList [JDict [(''text'', JStr (message.content i))]]),
                            (''role'', JStr r)] # out)))
      else render_messages rest)"

text \<open>
  For a bare string the method calls \<open>Message(content=prompt, role=MessageRole.USER)\<close>:
  \<open>Message\<close> is looked up, then \<open>MessageRole\<close>, then its attribute \<open>USER\<close>. What the
  attribute of a bound module-level object is, is the parameter \<open>attribute\<close>; a Message
  built without sources has none.
\<close>

definition render_prompt ::
  "(string \<Rightarrow> string \<Rightarrow> error + string) \<Rightarrow> prompt \<Rightarrow> error + json list" where
  "render_prompt attribute prompt =
     (case
        (case prompt of
           Str s \<Rightarrow>
             (case load_global ''Message'' of
                Inl e \<Rightarrow> Inl e
              | Inr _ \<Rightarrow>
                 (case load_global ''MessageRole'' of
                    Inl e \<Rightarrow> Inl e
                  | Inr enum \<Rightarrow>
                     (case attribute enum ''USER'' of
                        Inl e \<Rightarrow> Inl e
                      | Inr user \<Rightarrow> Inr [Message s user []])))
         | Messages ms \<Rightarrow> Inr ms)
      of
        Inl e \<Rightarrow> Inl e
      | Inr messages \<Rightarrow> render_messages messages)"

subsection \<open>\<open>generate\<close>\<close>

text \<open>
  The arguments of \<open>self._call_api\<close>, which \<open>HttpApiAssistant\<close> (not part of the sources)
  defines: the method, the URL and the keyword arguments.
\<close>

record request =
  http_method :: string
  url :: string
  params :: "(string \<times> string) list"
  headers :: "(string \<times> string) list"
  json :: json
  parse_kwargs :: "(string \<times> string) list"

text \<open>
  What consuming a generator did: the calls it made in order (a method or a bound
  module-level object called, a request handed to \<open>_call_api\<close>), the items it yielded
  and the exception that ended it, if one did.
\<close>

datatype event = Invoked string | Http request

record 'y run =
  trace :: "event list"
  yielded :: "'y list"
  raised :: "error option"

definition safety_settings :: json where
  "safety_settings =
     JList (map (\<lambda>category.
                  JDict [(''category'', JStr (''HARM_CATEGORY_'' @ category)),
                         (''threshold'', JStr ''BLOCK_NONE'')])
              [''HARASSMENT'', ''HATE_SPEECH'', ''SEXUALLY_EXPLICIT'', ''DANGEROUS_CONTENT''])"

definition generation_config :: "int \<Rightarrow> json" where
  "generation_config max_new_tokens =
     JDict [(''temperature'', JFloat 0.0), (''maxOutputTokens'', JInt max_new_tokens)]"

text \<open>The keyword argument \<open>max_new_tokens: int = 256\<close>; \<open>None\<close> is the call without it.\<close>

definition max_new_tokens_or_default :: "int option \<Rightarrow> int" where
  "max_new_tokens_or_default max_new_tokens =
     (case max_new_tokens of None \<Rightarrow> 256 | Some n \<Rightarrow> n)"

text \<open>
  The arguments \<open>generate\<close> writes for \<open>self._call_api\<close>, given the value of the
  \<open>"contents"\<close> entry: \<open>"POST"\<close>, the URL with \<open>self._MODEL\<close>, \<open>params\<close>, \<open>headers\<close>,
  the \<open>json\<close> dict and \<open>parse_kwargs\<close>.
\<close>

definition request_for :: "assistant \<Rightarrow> json \<Rightarrow> int \<Rightarrow> request" where
  "request_for self contents max_new_tokens =
     \<lparr>http_method = ''POST'',
      url = ''https://generativelanguage.googleapis.com/v1beta/models/''
              @ MODEL (cls self) @ '':streamGenerateContent'',
      params = [(''key'', api_key self)],
      headers = [(''Content-Type'', ''application/json'')],
      json = JDict [(''contents'', contents),
                    (''safetySettings'', safety_settings),
                    (''generationConfig'', generation_config max_new_tokens)],
      parse_kwargs = [(''item'', ''item.candidates.item.content.parts.item.text'')]\<rparr>"

text \<open>
  The body of \<open>generate\<close> evaluates the arguments of \<open>self._call_api\<close> before it
  enters it; the only one that can raise is the first value of the \<open>json\<close> dict, the
  call \<open>_render_prompt(prompt)\<close> of a name that is neither local nor an attribute of
  \<open>self\<close>. Then \<open>_call_api\<close> is entered and each chunk of its stream is yielded. Two
  parameters stand for what the module does not define: \<open>call_api\<close> gives the chunks
  the collaborator's stream delivers for a request and the exception that ends it, if
  any; \<open>call_global\<close> gives what calling a bound module-level object with the prompt
  returns.
\<close>

definition generate ::
  "(request \<Rightarrow> string list \<times> error option) \<Rightarrow> (string \<Rightarrow> prompt \<Rightarrow> error + json) \<Rightarrow>
   assistant \<Rightarrow> prompt \<Rightarrow> int option \<Rightarrow> string run" where
  "generate call_api call_global self prompt max_new_tokens =
     (case load_global ''_render_prompt'' of
        Inl e \<Rightarrow> \<lparr>trace = [], yielded = [], raised = Some e\<rparr>
      | Inr f \<Rightarrow>
         (case call_global f prompt of
            Inl e \<Rightarrow> \<lparr>trace = [Invoked f], yielded = [], raised = Some e\<rparr>
          | Inr contents \<Rightarrow>
             (let req = request_for self contents (max_new_tokens_or_default max_new_tokens)
              in case call_api req of
                   (chunks, err) \<Rightarrow>
                     \<lparr>trace = [Invoked f, Http req], yielded = chunks, raised = err\<rparr>)))"

subsection \<open>\<open>answer\<close>\<close>

text \<open>\<open>xs[-1]\<close> raises \<open>IndexError\<close> on the empty list.\<close>

definition last_item :: "'a list \<Rightarrow> error + 'a" where
  "last_item xs = (if xs = [] then Inl IndexError else Inr (last xs))"

text \<open>
  \<open>answer\<close> takes \<open>messages[-1]\<close>, calls \<open>self._instructize_prompt\<close> and then yields the
  value of the call \<open>generate(prompt=expanded_prompt, max_new_tokens=max_new_tokens)\<close>,
  again of a name that is neither local nor an attribute of \<open>self\<close>. The parameter
  \<open>call_global\<close> gives what calling a bound module-level object with these keyword
  arguments returns; that one value is the item yielded.
\<close>

definition answer ::
  "(string \<Rightarrow> string \<Rightarrow> int \<Rightarrow> error + 'y) \<Rightarrow> message list \<Rightarrow> int option \<Rightarrow> 'y run" where
  "answer call_global messages max_new_tokens =
     (case last_item messages of
        Inl e \<Rightarrow> \<lparr>trace = [], yielded = [], raised = Some e\<rparr>
      | Inr message \<Rightarrow>
         (let prompt = message.content message;
              srcs = message.sources message;
              expanded_prompt = instructize_prompt prompt srcs;
              done_so_far = [Invoked ''_instructize_prompt'']
          in case load_global ''generate'' of
               Inl e \<Rightarrow> \<lparr>trace = done_so_far, yielded = [], raised = Some e\<rparr>
             | Inr g \<Rightarrow>
                (case call_global g expanded_prompt (max_new_tokens_or_default max_new_tokens) of
                   Inl e \<Rightarrow> \<lparr>trace = done_so_far @ [Invoked g], yielded = [], raised = Some e\<rparr>
                 | Inr item \<Rightarrow>
                    \<lparr>trace = done_so_far @ [Invoked g], yielded = [item], raised = None\<rparr>)))"

section \<open>Properties\<close>

subsection \<open>Auxiliary facts\<close>

text \<open>\<open>join\<close> of a non-empty list followed by further items puts the separator before each of them.\<close>

lemma join_append_map:
  "xs \<noteq> [] \<Longrightarrow> join sep (xs @ map f ys) = join sep xs @ concat (map (\<lambda>y. sep @ f y) ys)"
proof (induction sep xs rule: join.induct)
  case (1 sep)
  then show ?case by simp
next
  case (2 sep x)
  show ?case by (induction ys arbitrary: x) simp_all
next
  case (3 sep x y ys)
  then show ?case by simp
qed

text \<open>The comprehension on messages whose roles are all user, assistant or system.\<close>

lemma render_messages_known:
  assumes "\<forall>m \<in> set msgs. message.role m \<in> {''user'', ''assistant'', ''system''}"
  shows "render_messages msgs =
    Inr (map (\<lambda>m. JDict [(''parts'', JList [JDict [(''text'', JStr (message.content m))]]),
                         (''role'', JStr (if message.role m = ''user'' then ''user'' else ''model''))])
          (filter (\<lambda>m. message.role m \<noteq> ''system'') msgs))"
  using assms
  by (induction msgs) (auto simp: subscript_def role_mapping_def)

text \<open>The comprehension on messages one of which has another role.\<close>

lemma render_messages_unknown:
  assumes "m \<in> set msgs" "message.role m \<notin> {''user'', ''assistant'', ''system''}"
  shows "\<exists>k. k \<in> message.role ` set msgs \<and> k \<notin> {''user'', ''assistant'', ''system''} \<and>
             render_messages msgs = Inl (KeyError k)"
  using assms
proof (induction msgs)
  case Nil
  then show ?case by simp
next
  case (Cons i rest)
  show ?case
  proof (cases "message.role i \<in> {''user'', ''assistant'', ''system''}")
    case False
    then have "render_messages (i # rest) = Inl (KeyError (message.role i))"
      by (simp add: subscript_def role_mapping_def)
    with False show ?thesis by auto
  next
    case True
    with Cons.prems have "m \<in> set rest" by auto
    from Cons.IH [OF this Cons.prems(2)] obtain k
      where k: "k \<in> message.role ` set rest" "k \<notin> {''user'', ''assistant'', ''system''}"
        and r: "render_messages rest = Inl (KeyError k)" by blast
    from True r have "render_messages (i # rest) = Inl (KeyError k)"
      by (auto simp: subscript_def role_mapping_def)
    with k show ?thesis by auto
  qed
qed

text \<open>The module-level names the methods refer to.\<close>

lemma load_global_render_prompt: "load_global ''_render_prompt'' = Inl (NameError ''_render_prompt'')"
  by (simp add: load_global_def module_globals_def builtin_names_def)

lemma load_global_generate: "load_global ''generate'' = Inl (NameError ''generate'')"
  by (simp add: load_global_def module_globals_def builtin_names_def)

lemma load_global_MessageRole: "load_global ''MessageRole'' = Inl (NameError ''MessageRole'')"
  by (simp add: load_global_def module_globals_def builtin_names_def)

lemma load_global_Message: "load_global ''Message'' = Inr ''Message''"
  by (simp add: load_global_def module_globals_def)

text \<open>
  The arguments as \<open>generate\<close> writes them: a POST to the streaming endpoint of the
  model with the key as query parameter, the JSON header and the extraction path, and a
  body with temperature 0.0, the given \<open>maxOutputTokens\<close> and the four safety settings.
\<close>

lemma request_for_fields:
  "http_method (request_for self contents n) = ''POST'' \<and>
   url (request_for self contents n) =
     ''https://generativelanguage.googleapis.com/v1beta/models/'' @ MODEL (cls self)
       @ '':streamGenerateContent'' \<and>
   params (request_for self contents n) = [(''key'', api_key self)] \<and>
   headers (request_for self contents n) = [(''Content-Type'', ''application/json'')] \<and>
   parse_kwargs (request_for self contents n) =
     [(''item'', ''item.candidates.item.content.parts.item.text'')]"
  by (simp add: request_for_def)

lemma request_for_body:
  "json (request_for self contents n) =
     JDict [(''contents'', contents),
            (''safetySettings'',
               JList [JDict [(''category'', JStr ''HARM_CATEGORY_HARASSMENT''),
                             (''threshold'', JStr ''BLOCK_NONE'')],
                      JDict [(''category'', JStr ''HARM_CATEGORY_HATE_SPEECH''),
                             (''threshold'', JStr ''BLOCK_NONE'')],
                      JDict [(''category'', JStr ''HARM_CATEGORY_SEXUALLY_EXPLICIT''),
                             (''threshold'', JStr ''BLOCK_NONE'')],
                      JDict [(''category'', JStr ''HARM_CATEGORY_DANGEROUS_CONTENT''),
                             (''threshold'', JStr ''BLOCK_NONE'')]]),
            (''generationConfig'',
               JDict [(''temperature'', JFloat 0), (''maxOutputTokens'', JInt n)])]"
  by (simp add: request_for_def safety_settings_def generation_config_def)

lemma max_new_tokens_default: "max_new_tokens_or_default None = 256"
  by (simp add: max_new_tokens_or_default_def)

subsection \<open>\<open>display_name\<close>\<close>

text \<open>
  C8: \<open>display_name\<close> is \<open>"Google/gemini-pro"\<close> for GeminiPro and \<open>"Google/gemini-ultra"\<close>
  for GeminiUltra: \<open>"Google/"\<close> followed by the model identifier of the class.
\<close>

theorem display_name_variants:
  "display_name GeminiPro = ''Google/gemini-pro'' \<and>
   display_name GeminiUltra = ''Google/gemini-ultra'' \<and>
   display_name c = ''Google/'' @ MODEL c"
  by (simp add: display_name_def)

subsection \<open>\<open>_instructize_prompt\<close>\<close>

text \<open>
  C5: for every prompt and every list of sources, empty or not, the text returned by
  \<open>_instructize_prompt\<close> is the two lines of the preamble, then \<open>Prompt: \<close> and the
  prompt, then the content of each source in the order of the list, each after an empty
  line. With no sources it is the preamble and the Prompt line.
\<close>

theorem instructize_prompt_layout:
  "instructize_prompt prompt srcs =
     ''Answer the prompt using only the pieces of context below.'' @ nl @
     ''If you don't know the answer, just say so. Don't try to make up additional context.'' @ nl @
     ''Prompt: '' @ prompt @ concat (map (\<lambda>source. nl @ nl @ source.content source) srcs)
   \<and>
   instructize_prompt prompt [] =
     ''Answer the prompt using only the pieces of context below.'' @ nl @
     ''If you don't know the answer, just say so. Don't try to make up additional context.'' @ nl @
     ''Prompt: '' @ prompt"
proof -
  have "instructize_prompt prompt ss =
     ''Answer the prompt using only the pieces of context below.'' @ nl @
     ''If you don't know the answer, just say so. Don't try to make up additional context.'' @ nl @
     ''Prompt: '' @ prompt @ concat (map (\<lambda>source. nl @ nl @ source.content source) ss)" for ss
    unfolding instructize_prompt_def
    by (subst join_append_map) simp_all
  from this [of srcs] this [of "[]"] show ?thesis by simp
qed

subsection \<open>\<open>_render_prompt\<close>\<close>

text \<open>
  C2: for a list of messages whose roles are user, assistant or system,
  \<open>_render_prompt\<close> returns, in the order of the list, one entry
  \<open>{"parts": [{"text": content}], "role": mapped}\<close> for each message that is not a
  system message, where user is mapped to \<open>"user"\<close> and assistant to \<open>"model"\<close>; the
  system messages are left out. When the list has no system message the result has
  the length of the list and its n-th entry renders the n-th message.
\<close>

theorem render_prompt_messages:
  assumes "\<forall>m \<in> set msgs. message.role m \<in> {''user'', ''assistant'', ''system''}"
  shows "\<exists>out. render_prompt attribute (Messages msgs) = Inr out \<and>
           out = map (\<lambda>m. JDict [(''parts'', JList [JDict [(''text'', JStr (message.content m))]]),
                                  (''role'', JStr (if message.role m = ''user''
                                                   then ''user'' else ''model''))])
                   (filter (\<lambda>m. message.role m \<noteq> ''system'') msgs) \<and>
           ((\<forall>m \<in> set msgs. message.role m \<noteq> ''system'') \<longrightarrow>
              length out = length msgs \<and>
              out = map (\<lambda>m. JDict [(''parts'',
                                        JList [JDict [(''text'', JStr (message.content m))]]),
                                     (''role'', JStr (if message.role m = ''user''
                                                      then ''user'' else ''model''))])
                      msgs)"
proof -
  have no_system: "filter (\<lambda>m. message.role m \<noteq> ''system'') msgs = msgs"
    if "\<forall>m \<in> set msgs. message.role m \<noteq> ''system''"
    using that by (simp add: filter_id_conv)
  have "render_prompt attribute (Messages msgs) = render_messages msgs"
    by (simp add: render_prompt_def)
  with render_messages_known [OF assms] no_system show ?thesis
    by simp
qed

text \<open>A list without and a list with a system message.\<close>

theorem render_prompt_messages_witness:
  "render_prompt (\<lambda>_ _. Inr ''user'')
     (Messages [Message ''Hi'' ''user'' [], Message ''Hello'' ''assistant'' []])
   = Inr [JDict [(''parts'', JList [JDict [(''text'', JStr ''Hi'')]]), (''role'', JStr ''user'')],
          JDict [(''parts'', JList [JDict [(''text'', JStr ''Hello'')]]), (''role'', JStr ''model'')]]
   \<and>
   render_prompt (\<lambda>_ _. Inr ''user'')
     (Messages [Message ''Be brief'' ''system'' [], Message ''Hi'' ''user'' [Source ''Doc A text'']])
   = Inr [JDict [(''parts'', JList [JDict [(''text'', JStr ''Hi'')]]), (''role'', JStr ''user'')]]"
  using
    render_prompt_messages [where attribute = "\<lambda>_ _. Inr ''user''"
      and msgs = "[Message ''Hi'' ''user'' [], Message ''Hello'' ''assistant'' []]"]
    render_prompt_messages [where attribute = "\<lambda>_ _. Inr ''user''"
      and msgs = "[Message ''Be brief'' ''system'' [], Message ''Hi'' ''user'' [Source ''Doc A text'']]"]
  by simp

text \<open>
  C4: on a bare string \<open>_render_prompt\<close> does not return one user entry: the name
  \<open>MessageRole\<close>, which the module does not import, is looked up while the Message is
  built, and the method raises \<open>NameError\<close> for every string.
\<close>

theorem render_prompt_bare_string:
  "render_prompt attribute (Str s) = Inl (NameError ''MessageRole'')"
  by (simp add: render_prompt_def load_global_Message load_global_MessageRole)

text \<open>
  C7: when a message of the list has a role other than user, assistant and system,
  \<open>_render_prompt\<close> returns no entries: it raises \<open>KeyError\<close>, and the key is a role of
  the list outside these three.
\<close>

theorem render_prompt_unknown_role:
  assumes "m \<in> set msgs" and "message.role m \<notin> {''user'', ''assistant'', ''system''}"
  shows "\<exists>k. k \<in> message.role ` set msgs \<and> k \<notin> {''user'', ''assistant'', ''system''} \<and>
             render_prompt attribute (Messages msgs) = Inl (KeyError k)"
proof -
  have "render_prompt attribute (Messages msgs) = render_messages msgs"
    by (simp add: render_prompt_def)
  with render_messages_unknown [OF assms] show ?thesis by simp
qed

text \<open>A list whose second message has the role \<open>"tool"\<close>.\<close>

theorem render_prompt_unknown_role_witness:
  "Message ''42'' ''tool'' [] \<in> set [Message ''Hi'' ''user'' [], Message ''42'' ''tool'' []] \<and>
   ''tool'' \<notin> {''user'', ''assistant'', ''system''} \<and>
   render_prompt (\<lambda>_ _. Inr ''user'')
     (Messages [Message ''Hi'' ''user'' [], Message ''42'' ''tool'' []]) = Inl (KeyError ''tool'')"
  using render_prompt_unknown_role [where attribute = "\<lambda>_ _. Inr ''user''"
      and m = "Message ''42'' ''tool'' []"
      and msgs = "[Message ''Hi'' ''user'' [], Message ''42'' ''tool'' []]"]
  by auto

subsection \<open>\<open>generate\<close>\<close>

text \<open>
  C9: for every prompt, a string or a list of messages, and every \<open>max_new_tokens\<close>,
  consuming \<open>generate\<close> ends with \<open>NameError\<close> for the name \<open>_render_prompt\<close>, raised
  while the \<open>json\<close> argument is built; nothing was yielded and no request was handed to
  \<open>_call_api\<close>.
\<close>

theorem generate_raises_NameError:
  "generate call_api call_global self prompt max_new_tokens =
     \<lparr>trace = [], yielded = [], raised = Some (NameError ''_render_prompt'')\<rparr>"
  by (simp add: generate_def load_global_render_prompt)

text \<open>
  C3: \<open>generate\<close> builds no request body, so none with temperature 0.0,
  \<open>maxOutputTokens\<close> and four safety settings: on the prompt \<open>"What is 2+2?"\<close> with
  \<open>max_new_tokens=100\<close> the trace holds no request and the run ends with \<open>NameError\<close>.
\<close>

theorem generate_builds_no_body:
  "trace (generate call_api call_global \<lparr>cls = GeminiPro, api_key = key\<rparr>
            (Str ''What is 2+2?'') (Some 100)) = [] \<and>
   raised (generate call_api call_global \<lparr>cls = GeminiPro, api_key = key\<rparr>
            (Str ''What is 2+2?'') (Some 100)) = Some (NameError ''_render_prompt'')"
  by (simp add: generate_def load_global_render_prompt)

text \<open>
  C6: \<open>generate\<close> issues no POST request: for a GeminiUltra assistant and a list of one
  user message the run makes no call, yields nothing and ends with \<open>NameError\<close>.
\<close>

theorem generate_issues_no_request:
  "generate call_api call_global \<lparr>cls = GeminiUltra, api_key = key\<rparr>
     (Messages [Message ''Hi'' ''user'' []]) None =
     \<lparr>trace = [], yielded = [], raised = Some (NameError ''_render_prompt'')\<rparr>"
  by (simp add: generate_def load_global_render_prompt)

subsection \<open>\<open>answer\<close>\<close>

text \<open>
  C1: on a non-empty list of messages \<open>answer\<close> does not yield the fragments of
  \<open>generate\<close>: after \<open>_instructize_prompt\<close> it looks up the name \<open>generate\<close>, which is a
  method and no module-level name, and ends with \<open>NameError\<close> having yielded nothing.
\<close>

theorem answer_raises_NameError:
  "answer call_global (earlier @ [message]) max_new_tokens =
     \<lparr>trace = [Invoked ''_instructize_prompt''], yielded = [],
      raised = Some (NameError ''generate'')\<rparr>"
  by (simp add: answer_def last_item_def load_global_generate)

text \<open>
  C10: on the empty list \<open>answer\<close> ends with \<open>IndexError\<close> from \<open>messages[-1]\<close>; no
  method was called, no request was made and nothing was yielded.
\<close>

theorem answer_empty_raises_IndexError:
  "answer call_global [] max_new_tokens =
     \<lparr>trace = [], yielded = [], raised = Some IndexError\<rparr>"
  by (simp add: answer_def last_item_def)

end
